theory Spec2Isabelle
  imports Complex_Main "HOL-Library.Word"
begin

section \<open>The upload route handlers of Cloudinary-Saas\<close>

text \<open>
  The source file holds two Next.js route handlers, both exported as \<open>POST\<close>:
  the image upload (lines 20-80) and the video upload (lines 105-178). Each one is
  a straight-line sequence of calls into external collaborators (Clerk's \<open>auth\<close>,
  the request's \<open>formData\<close>, the file's \<open>arrayBuffer\<close>, Cloudinary's
  \<open>upload_stream\<close>, Prisma's \<open>video.create\<close> and \<open>$disconnect\<close>) wrapped in
  \<open>try / catch / finally\<close>.

  The embedding makes the collaborators' answers a record, \<open>world\<close>, makes every
  exception a value, and threads the list of calls made so far (the trace) through
  the handler, so that "no upload call occurs" and "create comes after the upload"
  are statements about a list.
\<close>

subsection \<open>JavaScript values the handlers look at\<close>

text \<open>A thrown value: a \<open>TypeError\<close> raised by the runtime, or whatever an external call threw.\<close>

datatype exn = TypeError string | Error string

type_synonym buffer = "8 word list"

text \<open>
  A \<open>File\<close>: its name, and what its \<open>arrayBuffer()\<close> promise settles with.
\<close>

record js_file =
  file_name :: string
  file_arrayBuffer :: "exn + buffer"

text \<open>
  \<open>FormDataEntryValue = File | string\<close>; \<open>formData.get\<close> returns \<open>null\<close> (here
  \<open>None\<close>) when there is no entry of that name, and the first entry otherwise.
\<close>

datatype entry = File_entry js_file | String_entry string

type_synonym form_data = "(string \<times> entry) list"

definition formData_get :: "form_data \<Rightarrow> string \<Rightarrow> entry option" where
  "formData_get formData name = map_of formData name"

text \<open>
  The operand of \<open>!\<close>. A string-or-absent value (\<open>userId\<close>, an environment
  variable) is falsy when it is absent or the empty string; a form entry is falsy when it
  is \<open>null\<close> or the empty string, and a \<open>File\<close> object is always truthy.
\<close>

definition not_string :: "string option \<Rightarrow> bool" where
  "not_string v = (case v of None \<Rightarrow> True | Some s \<Rightarrow> s = [])"

definition not_entry :: "entry option \<Rightarrow> bool" where
  "not_entry v =
     (case v of
        None \<Rightarrow> True
      | Some (String_entry s) \<Rightarrow> s = []
      | Some (File_entry f) \<Rightarrow> False)"

text \<open>
  \<open>String(result.bytes)\<close>. The service reports the byte count as an integer in a JSON
  document, and \<open>result.bytes\<close> is the JavaScript number (a double) nearest to it;
  \<open>String\<close> then prints that number as \<open>Number::toString\<close> of ECMAScript says. The
  model follows both steps on natural numbers.
\<close>

text \<open>The decimal digits of a natural number, most significant first.\<close>

definition digit_char :: "nat \<Rightarrow> char" where
  "digit_char d = char_of (48 + d)"

fun decimal_digits :: "nat \<Rightarrow> string" where
  "decimal_digits n =
     (if n < 10 then [digit_char n]
      else decimal_digits (n div 10) @ [digit_char (n mod 10)])"

declare decimal_digits.simps [simp del]



text \<open>
  The double nearest to a natural number: a double has 53 significant bits, a number
  with more is rounded to the nearest multiple of the unit in its last kept place, a tie
  going to the even neighbour, and what rounds to \<open>2^1024\<close> or more is \<open>Infinity\<close>
  (\<open>None\<close>).
\<close>

fun bit_length :: "nat \<Rightarrow> nat" where
  "bit_length n = (if n = 0 then 0 else Suc (bit_length (n div 2)))"

declare bit_length.simps [simp del]

definition to_double :: "nat \<Rightarrow> nat option" where
  "to_double n =
     (let b = bit_length n in
      if b \<le> 53 then Some n
      else
        let e = b - 53; q = n div 2 ^ e; r = n mod 2 ^ e; h = 2 ^ (e - 1);
            m = (if h < r \<or> (r = h \<and> odd q) then q + 1 else q)
        in if 2 ^ 1024 \<le> m * 2 ^ e then None else Some (m * 2 ^ e))"

text \<open>
  \<open>Number::toString\<close> chooses integers \<open>n\<close>, \<open>k\<close> and \<open>s\<close> with \<open>k\<close> as small as
  possible such that \<open>s\<close> has \<open>k\<close> digits and \<open>s * 10^(n - k)\<close> is a number whose double is
  \<open>x\<close>; among several \<open>s\<close> the one nearest to \<open>x\<close>, and the even one of two equally
  near. For \<open>x\<close> with \<open>n\<close> digits, \<open>shortest x n k\<close> tries \<open>k\<close>, \<open>k + 1\<close>, ... digits;
  the only candidates for \<open>s\<close> are the two neighbours of \<open>x / 10^(n - k)\<close>.
\<close>

function shortest :: "nat \<Rightarrow> nat \<Rightarrow> nat \<Rightarrow> nat \<times> nat" where
  "shortest x n k =
     (if n \<le> k then (x, n)
      else
        let p = 10 ^ (n - k); lo = x div p
        in case filter (\<lambda>s. s < 10 ^ k \<and> to_double (s * p) = Some x) [lo, lo + 1] of
             [] \<Rightarrow> shortest x n (Suc k)
           | [s] \<Rightarrow> (s, k)
           | s # s' # ss \<Rightarrow>
               (if x - s * p < s' * p - x then s
                else if s' * p - x < x - s * p then s'
                else if even s then s else s', k))"
  by pat_completeness auto
termination
  by (relation "measure (\<lambda>(x, n, k). n - k)") auto

declare shortest.simps [simp del]

text \<open>
  The digits of \<open>s\<close> followed by \<open>n - k\<close> zeros when \<open>n \<le> 21\<close>, and the exponent
  form \<open>d.ddde+N\<close> beyond.
\<close>

definition format_number :: "nat \<Rightarrow> nat \<Rightarrow> nat \<Rightarrow> string" where
  "format_number s k n =
     (if n \<le> 21 then decimal_digits s @ replicate (n - k) (CHR ''0'')
      else
        (if k = 1 then decimal_digits s
         else take 1 (decimal_digits s) @ ''.'' @ drop 1 (decimal_digits s))
        @ ''e+'' @ decimal_digits (n - 1))"

text \<open>
  \<open>Number::toString\<close> of an integer-valued double \<open>x\<close>. When the power of ten above
  \<open>x\<close> has \<open>x\<close> as its double, that power is the shortest choice (\<open>s = 1\<close>, one digit
  more).
\<close>

definition Number_toString :: "nat \<Rightarrow> string" where
  "Number_toString x =
     (if x = 0 then ''0''
      else
        let n = length (decimal_digits x) in
        if to_double (10 ^ n) = Some x then format_number 1 1 (n + 1)
        else case shortest x n 1 of (s, k) \<Rightarrow> format_number s k n)"

definition String_number :: "nat \<Rightarrow> string" where
  "String_number n =
     (case to_double n of None \<Rightarrow> ''Infinity'' | Some x \<Rightarrow> Number_toString x)"

text \<open>
  \<open>x || 0\<close> on an optional number: the right operand when the left one is falsy
  (\<open>undefined\<close> or \<open>0\<close>), the left one otherwise. The number comes out of a JSON
  document, so it is never \<open>NaN\<close>.
\<close>

definition or_number :: "rat option \<Rightarrow> rat \<Rightarrow> rat" where
  "or_number x y = (case x of None \<Rightarrow> y | Some v \<Rightarrow> if v = 0 then y else v)"

subsection \<open>The data of the two handlers\<close>

text \<open>The options object given to \<open>upload_stream\<close>.\<close>

record upload_options =
  resource_type :: "string option"
  folder :: string
  transformation :: "(string \<times> string) list list option"

definition image_options :: upload_options where
  "image_options =
     \<lparr>resource_type = None, folder = ''next-cloudinary-uploads'', transformation = None\<rparr>"

definition video_options :: upload_options where
  "video_options =
     \<lparr>resource_type = Some ''video'', folder = ''video-uploads'',
      transformation = Some [[(''quality'', ''auto''), (''fetch_format'', ''mp4'')]]\<rparr>"

text \<open>\<open>CloudinaryUploadResult\<close> (lines 14-17 and 97-102).\<close>

record upload_result =
  public_id :: string
  bytes :: nat
  duration :: "rat option"

text \<open>
  The \<open>data\<close> object of \<open>prisma.video.create\<close> (lines 156-163). The three form
  values are whatever \<open>formData.get\<close> returned: the \<open>as string\<close> casts do nothing at
  run time.
\<close>

record video_data =
  title :: "entry option"
  description :: "entry option"
  publicId :: string
  originalSize :: "entry option"
  compressedSize :: string
  video_duration :: rat

text \<open>The stored record that \<open>create\<close> returns: the data and the store's identifier.\<close>

record video = video_data +
  video_id :: string

datatype body =
    Error_body string
  | PublicId_body string
  | Video_body video

record response =
  status :: nat
  json_body :: body

text \<open>\<open>NextResponse.json(body, init)\<close>: the status is 200 when \<open>init\<close> gives none.\<close>

definition NextResponse_json :: "body \<Rightarrow> nat option \<Rightarrow> response" where
  "NextResponse_json b init =
     \<lparr>status = (case init of None \<Rightarrow> 200 | Some s \<Rightarrow> s), json_body = b\<rparr>"

subsection \<open>The external collaborators\<close>

text \<open>
  What one call of \<open>upload_stream(options, callback)\<close> followed by
  \<open>uploadStream.end(buffer)\<close> does: it throws synchronously, or it returns and the
  service later invokes the completion callback, with \<open>(error, result)\<close>, some number
  of times (once, for a service that keeps its contract; the list may be empty or longer).
\<close>

datatype upload_behaviour =
    Throws_sync exn
  | Calls_back "(exn option \<times> upload_result option) list"

text \<open>
  Everything outside the handlers that one request depends on: the three environment
  variables, the \<open>userId\<close> that \<open>auth()\<close> gives (absent when nobody is signed in), what
  \<open>request.formData()\<close> settles with, what the media service does with an upload, and
  what the store answers to \<open>create\<close>. \<open>auth()\<close> is taken to return. What
  \<open>prisma.$disconnect()\<close> does is not a field of this record but a parameter of the
  video handler below.
\<close>

record world =
  env_CLOUD_NAME :: "string option"
  env_API_KEY :: "string option"
  env_API_SECRET :: "string option"
  auth_userId :: "string option"
  request_formData :: "exn + form_data"
  upload_stream :: "upload_options \<Rightarrow> buffer \<Rightarrow> upload_behaviour"
  prisma_video_create :: "video_data \<Rightarrow> exn + video"

text \<open>The calls with an effect outside the handler, in the order they are made.\<close>

datatype event =
    Upload_stream upload_options buffer
  | Video_create video_data
  | Disconnect
  | Console_log string exn

subsection \<open>Control flow: completions, \<open>try / catch / finally\<close>, \<open>await\<close>\<close>

text \<open>
  How a piece of an async function ends: with a value, with a thrown value, or never
  (it awaits a promise that stays pending).
\<close>

datatype 'a completion = Normal 'a | Throw exn | Never

type_synonym 'a action = "event list \<Rightarrow> 'a completion \<times> event list"

definition pure_a :: "'a \<Rightarrow> 'a action" where
  "pure_a x = (\<lambda>t. (Normal x, t))"

definition throw_a :: "exn \<Rightarrow> 'a action" where
  "throw_a e = (\<lambda>t. (Throw e, t))"

definition bind_a :: "'a action \<Rightarrow> ('a \<Rightarrow> 'b action) \<Rightarrow> 'b action" where
  "bind_a m f =
     (\<lambda>t. case m t of
        (Normal x, t') \<Rightarrow> f x t'
      | (Throw e, t') \<Rightarrow> (Throw e, t')
      | (Never, t') \<Rightarrow> (Never, t'))"

definition emit :: "event \<Rightarrow> unit action" where
  "emit ev = (\<lambda>t. (Normal (), t @ [ev]))"

text \<open>\<open>await\<close> of a promise that settles with the given value or rejection.\<close>

definition await_settled :: "exn + 'a \<Rightarrow> 'a action" where
  "await_settled r = (case r of Inl e \<Rightarrow> throw_a e | Inr x \<Rightarrow> pure_a x)"

definition try_catch :: "'a action \<Rightarrow> (exn \<Rightarrow> 'a action) \<Rightarrow> 'a action" where
  "try_catch m h =
     (\<lambda>t. case m t of
        (Throw e, t') \<Rightarrow> h e t'
      | (Normal x, t') \<Rightarrow> (Normal x, t')
      | (Never, t') \<Rightarrow> (Never, t'))"

text \<open>
  \<open>try { m } finally { fin }\<close>: the finaliser runs when \<open>m\<close> completes, by return or by
  throw; the completion of \<open>m\<close> stands unless the finaliser itself throws.
\<close>

definition try_finally :: "'a action \<Rightarrow> unit action \<Rightarrow> 'a action" where
  "try_finally m fin =
     (\<lambda>t. case m t of
        (Never, t') \<Rightarrow> (Never, t')
      | (c, t') \<Rightarrow>
          (case fin t' of
             (Normal u, t'') \<Rightarrow> (c, t'')
           | (Throw e, t'') \<Rightarrow> (Throw e, t'')
           | (Never, t'') \<Rightarrow> (Never, t'')))"

subsection \<open>The Upload Adapter (lines 48-62 and 136-152)\<close>

text \<open>
  A promise: its state (\<open>None\<close> while pending) and the settlements handed to the
  awaiting continuation. \<open>resolve\<close> and \<open>reject\<close> act on a pending promise only.
\<close>

datatype 'a settlement = Fulfilled 'a | Rejected exn

record 'a promise =
  state :: "'a settlement option"
  resumed :: "'a settlement list"

definition pending :: "'a promise" where
  "pending = \<lparr>state = None, resumed = []\<rparr>"

definition settle :: "'a settlement \<Rightarrow> 'a promise \<Rightarrow> 'a promise" where
  "settle s p =
     (case state p of
        None \<Rightarrow> \<lparr>state = Some s, resumed = resumed p @ [s]\<rparr>
      | Some old \<Rightarrow> p)"

definition resolve :: "'a \<Rightarrow> 'a promise \<Rightarrow> 'a promise" where
  "resolve v = settle (Fulfilled v)"

definition reject :: "exn \<Rightarrow> 'a promise \<Rightarrow> 'a promise" where
  "reject e = settle (Rejected e)"

text \<open>
  The completion callback, the same in both handlers:
  \<^verbatim>\<open>(error, result) => { if (error) reject(error); else resolve(result as CloudinaryUploadResult); }\<close>
  The cast does not check: an absent \<open>result\<close> resolves the promise with \<open>undefined\<close>.
\<close>

definition upload_callback ::
  "exn option \<times> upload_result option \<Rightarrow> upload_result option promise \<Rightarrow> upload_result option promise"
where
  "upload_callback args p =
     (case fst args of
        Some error \<Rightarrow> reject error p
      | None \<Rightarrow> resolve (snd args) p)"

text \<open>
  \<open>new Promise(executor)\<close>: a throw of the executor rejects the promise; otherwise the
  callback invocations act on it in order.
\<close>

definition new_Promise :: "upload_behaviour \<Rightarrow> upload_result option promise" where
  "new_Promise b =
     (case b of
        Throws_sync e \<Rightarrow> reject e pending
      | Calls_back cs \<Rightarrow> fold upload_callback cs pending)"

definition await :: "'a promise \<Rightarrow> 'a action" where
  "await p =
     (\<lambda>t. (case state p of
              None \<Rightarrow> Never
            | Some (Fulfilled v) \<Rightarrow> Normal v
            | Some (Rejected e) \<Rightarrow> Throw e, t))"

definition upload_adapter ::
  "world \<Rightarrow> upload_options \<Rightarrow> buffer \<Rightarrow> upload_result option action"
where
  "upload_adapter w options buffer =
     bind_a (emit (Upload_stream options buffer))
       (\<lambda>u. await (new_Promise (upload_stream w options buffer)))"

text \<open>
  A property read on the awaited result, \<open>result.public_id\<close>: a \<open>TypeError\<close> when the
  result is \<open>undefined\<close>.
\<close>

definition read_result :: "upload_result option \<Rightarrow> upload_result action" where
  "read_result r =
     (case r of
        None \<Rightarrow> throw_a (TypeError ''Cannot read properties of undefined (reading 'public_id')'')
      | Some x \<Rightarrow> pure_a x)"

text \<open>
  \<open>file.arrayBuffer()\<close> on the value of the \<open>file\<close> field, which the cast
  \<open>as File | null\<close> leaves as it is: a string has no such method, and \<open>null\<close> has
  no properties.
\<close>

definition arrayBuffer :: "entry option \<Rightarrow> buffer action" where
  "arrayBuffer f =
     (case f of
        Some (File_entry x) \<Rightarrow> await_settled (file_arrayBuffer x)
      | Some (String_entry s) \<Rightarrow> throw_a (TypeError ''file.arrayBuffer is not a function'')
      | None \<Rightarrow> throw_a (TypeError ''Cannot read properties of null (reading 'arrayBuffer')''))"

subsection \<open>The image handler (lines 20-80)\<close>

definition image_try :: "world \<Rightarrow> response action" where
  "image_try w =
     bind_a (await_settled (request_formData w)) (\<lambda>formData.
       let file = formData_get formData ''file'' in
       if not_entry file then
         pure_a (NextResponse_json (Error_body ''File not found'') (Some 400))
       else
         bind_a (arrayBuffer file) (\<lambda>buffer.
         bind_a (upload_adapter w image_options buffer) (\<lambda>result.
         bind_a (read_result result) (\<lambda>r.
           pure_a (NextResponse_json (PublicId_body (public_id r)) (Some 200))))))"

definition image_catch :: "exn \<Rightarrow> response action" where
  "image_catch error =
     bind_a (emit (Console_log ''Upload image failed'' error)) (\<lambda>u.
       pure_a (NextResponse_json (Error_body ''Upload image failed'') (Some 500)))"

text \<open>The identity check of lines 22-28 comes before the \<open>try\<close>.\<close>

definition image_POST :: "world \<Rightarrow> response action" where
  "image_POST w =
     (let userId = auth_userId w in
      if not_string userId then
        pure_a (NextResponse_json (Error_body ''Unauthorized'') (Some 401))
      else try_catch (image_try w) image_catch)"

subsection \<open>The video handler (lines 105-178)\<close>

definition video_try :: "world \<Rightarrow> response action" where
  "video_try w =
     (if not_string (env_CLOUD_NAME w) \<or> not_string (env_API_KEY w)
         \<or> not_string (env_API_SECRET w) then
        pure_a (NextResponse_json (Error_body ''Cloudinary credentials not found'') (Some 500))
      else
        bind_a (await_settled (request_formData w)) (\<lambda>formData.
          let file = formData_get formData ''file'';
              title = formData_get formData ''title'';
              description = formData_get formData ''description'';
              originalSize = formData_get formData ''originalSize'' in
          if not_entry file then
            pure_a (NextResponse_json (Error_body ''File not found'') (Some 400))
          else
            bind_a (arrayBuffer file) (\<lambda>buffer.
            bind_a (upload_adapter w video_options buffer) (\<lambda>result.
            bind_a (read_result result) (\<lambda>r.
              let data = \<lparr>title = title, description = description,
                          publicId = public_id r, originalSize = originalSize,
                          compressedSize = String_number (bytes r),
                          video_duration = or_number (duration r) 0\<rparr> in
              bind_a (emit (Video_create data)) (\<lambda>u.
              bind_a (await_settled (prisma_video_create w data)) (\<lambda>video.
                pure_a (NextResponse_json (Video_body video) None))))))))"

definition video_catch :: "exn \<Rightarrow> response action" where
  "video_catch error =
     bind_a (emit (Console_log ''Upload video failed'' error)) (\<lambda>u.
       pure_a (NextResponse_json (Error_body ''Upload video failed'') (Some 500)))"

text \<open>
  \<open>await prisma.$disconnect()\<close>: the call is made, and its promise is fulfilled
  (\<open>None\<close>) or rejected with an error.
\<close>

definition prisma_disconnect :: "exn option \<Rightarrow> unit action" where
  "prisma_disconnect rejection =
     bind_a (emit Disconnect) (\<lambda>u.
       case rejection of None \<Rightarrow> pure_a () | Some e \<Rightarrow> throw_a e)"

text \<open>
  The handler. All the \<open>return\<close> statements and the \<open>catch\<close> block sit inside the
  \<open>try\<close> of a \<open>try / finally\<close>, whose finaliser awaits \<open>prisma.$disconnect()\<close>. That
  await is outside the \<open>catch\<close>: when \<open>$disconnect\<close> rejects, the rejection is the
  completion of the handler.
\<close>

definition video_handler :: "exn option \<Rightarrow> world \<Rightarrow> response action" where
  "video_handler rejection w =
     try_finally (try_catch (video_try w) video_catch) (prisma_disconnect rejection)"

text \<open>The handler in an environment whose \<open>$disconnect\<close> completes.\<close>

definition video_POST :: "world \<Rightarrow> response action" where
  "video_POST w = video_handler None w"

text \<open>The status of the response a handler returned, if it returned one.\<close>

definition status_of :: "response completion \<times> event list \<Rightarrow> nat option" where
  "status_of r = (case fst r of Normal resp \<Rightarrow> Some (status resp) | Throw e \<Rightarrow> None | Never \<Rightarrow> None)"



subsection \<open>Shorthands used in the statements\<close>

text \<open>
  What the awaiting handler sees of one adapter call: the settlement the first callback
  invocation asks for, or the synchronous throw, or nothing when the callback never
  comes. Lemma \<open>await_new_Promise\<close> below derives it from \<open>new_Promise\<close> and \<open>await\<close>.
\<close>

definition outcome_of :: "exn option \<times> upload_result option \<Rightarrow> upload_result option settlement" where
  "outcome_of c = (case fst c of Some e \<Rightarrow> Rejected e | None \<Rightarrow> Fulfilled (snd c))"

definition adapter_completion :: "upload_behaviour \<Rightarrow> upload_result option completion" where
  "adapter_completion b =
     (case b of
        Throws_sync e \<Rightarrow> Throw e
      | Calls_back [] \<Rightarrow> Never
      | Calls_back (c # cs) \<Rightarrow> (case fst c of Some e \<Rightarrow> Throw e | None \<Rightarrow> Normal (snd c)))"

text \<open>The condition of the \<open>if\<close> at lines 109-113.\<close>

definition credentials_missing :: "world \<Rightarrow> bool" where
  "credentials_missing w \<longleftrightarrow>
     not_string (env_CLOUD_NAME w) \<or> not_string (env_API_KEY w) \<or> not_string (env_API_SECRET w)"

text \<open>The object literal of lines 156-163, for a parsed form and an upload result.\<close>

definition video_data_of :: "form_data \<Rightarrow> upload_result \<Rightarrow> video_data" where
  "video_data_of formData r =
     \<lparr>title = formData_get formData ''title'',
      description = formData_get formData ''description'',
      publicId = public_id r,
      originalSize = formData_get formData ''originalSize'',
      compressedSize = String_number (bytes r),
      video_duration = or_number (duration r) 0\<rparr>"

text \<open>The responses of the two \<open>catch\<close> blocks (lines 78 and 172).\<close>

definition image_failed :: response where
  "image_failed = \<lparr>status = 500, json_body = Error_body ''Upload image failed''\<rparr>"

definition video_failed :: response where
  "video_failed = \<lparr>status = 500, json_body = Error_body ''Upload video failed''\<rparr>"

subsection \<open>A concrete request\<close>

text \<open>
  A signed-in caller posts a small file with the three text fields; the service calls
  back once with a result, and the store accepts the record. The examples below vary
  one field of this world at a time.
\<close>

definition clip :: js_file where
  "clip = \<lparr>file_name = ''clip.mp4'', file_arrayBuffer = Inr [1, 2, 3]\<rparr>"

definition clip_result :: upload_result where
  "clip_result = \<lparr>public_id = ''video-uploads/abc'', bytes = 2048, duration = Some 12\<rparr>"

definition store_accepts :: "video_data \<Rightarrow> exn + video" where
  "store_accepts d =
     Inr \<lparr>title = title d, description = description d, publicId = publicId d,
          originalSize = originalSize d, compressedSize = compressedSize d,
          video_duration = video_duration d, video_id = ''v1''\<rparr>"

definition clip_form :: form_data where
  "clip_form =
     [(''file'', File_entry clip), (''title'', String_entry ''t''),
      (''description'', String_entry ''d''), (''originalSize'', String_entry ''2097152'')]"

definition world_ok :: world where
  "world_ok =
     \<lparr>env_CLOUD_NAME = Some ''demo'', env_API_KEY = Some ''key'', env_API_SECRET = Some ''secret'',
      auth_userId = Some ''user_1'',
      request_formData = Inr clip_form,
      upload_stream = (\<lambda>options buffer. Calls_back [(None, Some clip_result)]),
      prisma_video_create = store_accepts\<rparr>"

text \<open>No session: \<open>auth()\<close> gives no \<open>userId\<close>, and the form has no fields.\<close>

definition world_anonymous :: world where
  "world_anonymous = world_ok\<lparr>auth_userId := None, request_formData := Inr []\<rparr>"

text \<open>The form has the text fields but no \<open>file\<close> field.\<close>

definition world_no_file :: world where
  "world_no_file = world_ok\<lparr>request_formData := Inr [(''title'', String_entry ''t'')]\<rparr>"

text \<open>\<open>CLOUDINARY_API_KEY\<close> is not set.\<close>

definition world_no_key :: world where
  "world_no_key = world_ok\<lparr>env_API_KEY := None\<rparr>"

text \<open>\<open>CLOUDINARY_API_KEY\<close> is not set, and the form has no \<open>file\<close> field.\<close>

definition world_no_key_no_file :: world where
  "world_no_key_no_file = world_no_file\<lparr>env_API_KEY := None\<rparr>"

text \<open>The \<open>file\<close> field is a text value.\<close>

definition world_text_file :: world where
  "world_text_file = world_ok\<lparr>request_formData := Inr [(''file'', String_entry ''hello'')]\<rparr>"

text \<open>The request body is not a well-formed multipart document.\<close>

definition world_bad_body :: world where
  "world_bad_body = world_ok\<lparr>request_formData := Inl (Error ''Failed to parse body'')\<rparr>"

text \<open>The file cannot be read into a buffer.\<close>

definition world_unreadable :: world where
  "world_unreadable =
     world_ok\<lparr>request_formData :=
       Inr [(''file'', File_entry \<lparr>file_name = ''clip.mp4'', file_arrayBuffer = Inl (Error ''read'')\<rparr>)]\<rparr>"

text \<open>The service reports a transport error, and then calls back a second time.\<close>

definition world_upload_fails :: world where
  "world_upload_fails =
     world_ok\<lparr>upload_stream :=
       (\<lambda>options buffer. Calls_back [(Some (Error ''timeout''), None), (None, Some clip_result)])\<rparr>"

text \<open>The store rejects the write.\<close>

definition world_store_fails :: world where
  "world_store_fails = world_ok\<lparr>prisma_video_create := (\<lambda>d. Inl (Error ''constraint''))\<rparr>"

text \<open>The service reports no duration (an image-like asset).\<close>

definition world_no_duration :: world where
  "world_no_duration =
     world_ok\<lparr>upload_stream :=
       (\<lambda>options buffer. Calls_back [(None, Some (clip_result\<lparr>duration := None\<rparr>))])\<rparr>"

text \<open>The service takes the upload and never invokes the completion callback.\<close>

definition world_silent :: world where
  "world_silent = world_ok\<lparr>upload_stream := (\<lambda>options buffer. Calls_back [])\<rparr>"

text \<open>The service reports a byte count of \<open>2^63\<close>, a number that a double holds exactly.\<close>

definition world_huge :: world where
  "world_huge =
     world_ok\<lparr>upload_stream :=
       (\<lambda>options buffer.
          Calls_back [(None, Some (clip_result\<lparr>bytes := 9223372036854775808\<rparr>))])\<rparr>"

section \<open>Properties\<close>

subsection \<open>The promise settles once\<close>

lemma upload_callback_settled: "state p = Some s \<Longrightarrow> upload_callback c p = p"
  by (simp add: upload_callback_def resolve_def reject_def settle_def split: option.splits)

lemma fold_upload_callback_settled:
  "state p = Some s \<Longrightarrow> fold upload_callback cs p = p"
  by (induction cs) (simp_all add: upload_callback_settled)

lemma upload_callback_pending:
  "upload_callback c pending = \<lparr>state = Some (outcome_of c), resumed = [outcome_of c]\<rparr>"
  by (simp add: upload_callback_def resolve_def reject_def settle_def pending_def outcome_of_def
        split: option.splits)

lemma new_Promise_first:
  "new_Promise (Calls_back (c # cs)) = \<lparr>state = Some (outcome_of c), resumed = [outcome_of c]\<rparr>"
  by (simp add: new_Promise_def upload_callback_pending fold_upload_callback_settled)

lemma new_Promise_none: "new_Promise (Calls_back []) = pending"
  by (simp add: new_Promise_def)

lemma new_Promise_sync:
  "new_Promise (Throws_sync e) = \<lparr>state = Some (Rejected e), resumed = [Rejected e]\<rparr>"
  by (simp add: new_Promise_def reject_def settle_def pending_def)

lemma state_new_Promise:
  "state (new_Promise b) =
     (case adapter_completion b of
        Normal x \<Rightarrow> Some (Fulfilled x)
      | Throw e \<Rightarrow> Some (Rejected e)
      | Never \<Rightarrow> None)"
  by (cases b)
     (auto simp: adapter_completion_def new_Promise_first new_Promise_none
        new_Promise_sync pending_def outcome_of_def split: list.splits option.splits)

lemma await_new_Promise: "await (new_Promise b) t = (adapter_completion b, t)"
  by (simp add: await_def state_new_Promise split: completion.split)

lemma upload_adapter_eq:
  "upload_adapter w options buffer t =
     (adapter_completion (upload_stream w options buffer), t @ [Upload_stream options buffer])"
  by (simp add: upload_adapter_def bind_a_def emit_def await_new_Promise)


text \<open>
  C1. Whenever the completion callback fires, the first invocation alone decides the
  outcome of the adapter, in either handler (\<open>options\<close> is arbitrary): the awaiting
  continuation is resumed exactly once, with a rejection carrying the callback's error when
  there is one and with the callback's result otherwise; later invocations change nothing,
  and the promise is not left pending.
\<close>

theorem upload_adapter_settles_once:
  assumes "upload_stream w options buffer = Calls_back ((error, result) # later)"
  shows "resumed (new_Promise (upload_stream w options buffer))
           = [case error of Some e \<Rightarrow> Rejected e | None \<Rightarrow> Fulfilled result]
       \<and> state (new_Promise (upload_stream w options buffer))
           = Some (case error of Some e \<Rightarrow> Rejected e | None \<Rightarrow> Fulfilled result)
       \<and> upload_adapter w options buffer t
           = (case error of Some e \<Rightarrow> Throw e | None \<Rightarrow> Normal result,
              t @ [Upload_stream options buffer])"
  using assms
  by (simp add: new_Promise_first outcome_of_def upload_adapter_eq adapter_completion_def
        split: option.splits)

theorem upload_adapter_settles_once_witness:
  "upload_stream world_upload_fails video_options [1, 2, 3]
     = Calls_back ((Some (Error ''timeout''), None) # [(None, Some clip_result)])
   \<and> resumed (new_Promise (upload_stream world_upload_fails video_options [1, 2, 3]))
     = [Rejected (Error ''timeout'')]
   \<and> upload_adapter world_upload_fails video_options [1, 2, 3] []
     = (Throw (Error ''timeout''), [Upload_stream video_options [1, 2, 3]])
   \<and> upload_stream world_ok image_options [1, 2, 3] = Calls_back ((None, Some clip_result) # [])
   \<and> resumed (new_Promise (upload_stream world_ok image_options [1, 2, 3]))
     = [Fulfilled (Some clip_result)]
   \<and> upload_adapter world_ok image_options [1, 2, 3] []
     = (Normal (Some clip_result), [Upload_stream image_options [1, 2, 3]])"
  using upload_adapter_settles_once
          [of world_upload_fails video_options "[1, 2, 3]" "Some (Error ''timeout'')" None
              "[(None, Some clip_result)]" "[]"]
        upload_adapter_settles_once
          [of world_ok image_options "[1, 2, 3]" None "Some clip_result" "[]" "[]"]
  by (simp add: world_ok_def world_upload_fails_def)

subsection \<open>The handlers, path by path\<close>

lemmas flow_defs = bind_a_def pure_a_def throw_a_def emit_def await_settled_def
  try_catch_def try_finally_def read_result_def arrayBuffer_def Let_def

lemma image_try_eq:
  "image_try w t =
    (case request_formData w of
       Inl e \<Rightarrow> (Throw e, t)
     | Inr formData \<Rightarrow>
        (case formData_get formData ''file'' of
           None \<Rightarrow> (Normal \<lparr>status = 400, json_body = Error_body ''File not found''\<rparr>, t)
         | Some (String_entry s) \<Rightarrow>
             if s = [] then (Normal \<lparr>status = 400, json_body = Error_body ''File not found''\<rparr>, t)
             else (Throw (TypeError ''file.arrayBuffer is not a function''), t)
         | Some (File_entry f) \<Rightarrow>
            (case file_arrayBuffer f of
               Inl e \<Rightarrow> (Throw e, t)
             | Inr buffer \<Rightarrow>
                (case adapter_completion (upload_stream w image_options buffer) of
                   Never \<Rightarrow> (Never, t @ [Upload_stream image_options buffer])
                 | Throw e \<Rightarrow> (Throw e, t @ [Upload_stream image_options buffer])
                 | Normal None \<Rightarrow>
                     (Throw (TypeError ''Cannot read properties of undefined (reading 'public_id')''),
                      t @ [Upload_stream image_options buffer])
                 | Normal (Some r) \<Rightarrow>
                     (Normal \<lparr>status = 200, json_body = PublicId_body (public_id r)\<rparr>,
                      t @ [Upload_stream image_options buffer])))))"
  by (simp add: image_try_def flow_defs upload_adapter_eq NextResponse_json_def not_entry_def
        split: sum.split option.split entry.split completion.split)

lemma image_POST_eq:
  "image_POST w t =
     (if not_string (auth_userId w)
      then (Normal \<lparr>status = 401, json_body = Error_body ''Unauthorized''\<rparr>, t)
      else case image_try w t of
        (Throw e, t') \<Rightarrow>
          (Normal \<lparr>status = 500, json_body = Error_body ''Upload image failed''\<rparr>,
           t' @ [Console_log ''Upload image failed'' e])
      | (Normal resp, t') \<Rightarrow> (Normal resp, t')
      | (Never, t') \<Rightarrow> (Never, t'))"
  by (simp add: image_POST_def image_catch_def flow_defs NextResponse_json_def
        split: prod.split completion.split)

lemma video_try_eq:
  "video_try w t =
    (if credentials_missing w
     then (Normal \<lparr>status = 500, json_body = Error_body ''Cloudinary credentials not found''\<rparr>, t)
     else case request_formData w of
       Inl e \<Rightarrow> (Throw e, t)
     | Inr formData \<Rightarrow>
        (case formData_get formData ''file'' of
           None \<Rightarrow> (Normal \<lparr>status = 400, json_body = Error_body ''File not found''\<rparr>, t)
         | Some (String_entry s) \<Rightarrow>
             if s = [] then (Normal \<lparr>status = 400, json_body = Error_body ''File not found''\<rparr>, t)
             else (Throw (TypeError ''file.arrayBuffer is not a function''), t)
         | Some (File_entry f) \<Rightarrow>
            (case file_arrayBuffer f of
               Inl e \<Rightarrow> (Throw e, t)
             | Inr buffer \<Rightarrow>
                (case adapter_completion (upload_stream w video_options buffer) of
                   Never \<Rightarrow> (Never, t @ [Upload_stream video_options buffer])
                 | Throw e \<Rightarrow> (Throw e, t @ [Upload_stream video_options buffer])
                 | Normal None \<Rightarrow>
                     (Throw (TypeError ''Cannot read properties of undefined (reading 'public_id')''),
                      t @ [Upload_stream video_options buffer])
                 | Normal (Some r) \<Rightarrow>
                     (case prisma_video_create w (video_data_of formData r) of
                        Inl e \<Rightarrow>
                          (Throw e,
                           t @ [Upload_stream video_options buffer,
                                Video_create (video_data_of formData r)])
                      | Inr video \<Rightarrow>
                          (Normal \<lparr>status = 200, json_body = Video_body video\<rparr>,
                           t @ [Upload_stream video_options buffer,
                                Video_create (video_data_of formData r)]))))))"
  by (simp add: video_try_def flow_defs upload_adapter_eq NextResponse_json_def not_entry_def
        credentials_missing_def video_data_of_def
        split: sum.split option.split entry.split completion.split)

lemma video_handler_eq:
  "video_handler rejection w t =
     (case video_try w t of
        (Normal resp, t') \<Rightarrow>
          (case rejection of
             None \<Rightarrow> (Normal resp, t' @ [Disconnect])
           | Some x \<Rightarrow> (Throw x, t' @ [Disconnect]))
      | (Throw e, t') \<Rightarrow>
          (case rejection of
             None \<Rightarrow>
               (Normal \<lparr>status = 500, json_body = Error_body ''Upload video failed''\<rparr>,
                t' @ [Console_log ''Upload video failed'' e, Disconnect])
           | Some x \<Rightarrow> (Throw x, t' @ [Console_log ''Upload video failed'' e, Disconnect]))
      | (Never, t') \<Rightarrow> (Never, t'))"
  by (simp add: video_handler_def prisma_disconnect_def video_catch_def flow_defs
        NextResponse_json_def split: prod.split completion.split option.split)

lemma video_POST_eq:
  "video_POST w t =
     (case video_try w t of
        (Normal resp, t') \<Rightarrow> (Normal resp, t' @ [Disconnect])
      | (Throw e, t') \<Rightarrow>
          (Normal \<lparr>status = 500, json_body = Error_body ''Upload video failed''\<rparr>,
           t' @ [Console_log ''Upload video failed'' e, Disconnect])
      | (Never, t') \<Rightarrow> (Never, t'))"
  by (simp add: video_POST_def video_handler_eq split: prod.split completion.split)

text \<open>
  A \<open>$disconnect\<close> that rejects with \<open>x\<close>: a run that comes to an end completes by
  throwing \<open>x\<close>, whatever the \<open>try / catch\<close> had returned.
\<close>

lemma video_handler_rejecting:
  "fst (video_handler (Some x) w t) = Throw x \<or> fst (video_handler (Some x) w t) = Never"
  by (simp add: video_handler_eq split: prod.split completion.split)

text \<open>The calls that the handler makes do not depend on what \<open>$disconnect\<close> answers.\<close>

lemma video_handler_trace: "snd (video_handler rejection w t) = snd (video_POST w t)"
  by (simp add: video_handler_eq video_POST_eq split: prod.split completion.split option.split)

text \<open>Every run of the video handler takes exactly one of ten paths.\<close>

lemma video_POST_cases [case_names credentials parse no_file text_file buffering pending
    upload_fails no_result store_fails success]:
  obtains
    "credentials_missing w"
    "video_POST w t =
       (Normal \<lparr>status = 500, json_body = Error_body ''Cloudinary credentials not found''\<rparr>,
        t @ [Disconnect])"
  | e where "\<not> credentials_missing w" "request_formData w = Inl e"
    "video_POST w t =
       (Normal \<lparr>status = 500, json_body = Error_body ''Upload video failed''\<rparr>,
        t @ [Console_log ''Upload video failed'' e, Disconnect])"
  | formData where "\<not> credentials_missing w" "request_formData w = Inr formData"
    "not_entry (formData_get formData ''file'')"
    "video_POST w t =
       (Normal \<lparr>status = 400, json_body = Error_body ''File not found''\<rparr>, t @ [Disconnect])"
  | formData s where "\<not> credentials_missing w" "request_formData w = Inr formData"
    "formData_get formData ''file'' = Some (String_entry s)" "s \<noteq> []"
    "video_POST w t =
       (Normal \<lparr>status = 500, json_body = Error_body ''Upload video failed''\<rparr>,
        t @ [Console_log ''Upload video failed'' (TypeError ''file.arrayBuffer is not a function''),
             Disconnect])"
  | formData f e where "\<not> credentials_missing w" "request_formData w = Inr formData"
    "formData_get formData ''file'' = Some (File_entry f)" "file_arrayBuffer f = Inl e"
    "video_POST w t =
       (Normal \<lparr>status = 500, json_body = Error_body ''Upload video failed''\<rparr>,
        t @ [Console_log ''Upload video failed'' e, Disconnect])"
  | formData f buffer where "\<not> credentials_missing w" "request_formData w = Inr formData"
    "formData_get formData ''file'' = Some (File_entry f)" "file_arrayBuffer f = Inr buffer"
    "adapter_completion (upload_stream w video_options buffer) = Never"
    "video_POST w t = (Never, t @ [Upload_stream video_options buffer])"
  | formData f buffer e where "\<not> credentials_missing w" "request_formData w = Inr formData"
    "formData_get formData ''file'' = Some (File_entry f)" "file_arrayBuffer f = Inr buffer"
    "adapter_completion (upload_stream w video_options buffer) = Throw e"
    "video_POST w t =
       (Normal \<lparr>status = 500, json_body = Error_body ''Upload video failed''\<rparr>,
        t @ [Upload_stream video_options buffer, Console_log ''Upload video failed'' e, Disconnect])"
  | formData f buffer where "\<not> credentials_missing w" "request_formData w = Inr formData"
    "formData_get formData ''file'' = Some (File_entry f)" "file_arrayBuffer f = Inr buffer"
    "adapter_completion (upload_stream w video_options buffer) = Normal None"
    "video_POST w t =
       (Normal \<lparr>status = 500, json_body = Error_body ''Upload video failed''\<rparr>,
        t @ [Upload_stream video_options buffer,
             Console_log ''Upload video failed'' (TypeError ''Cannot read properties of undefined (reading 'public_id')''),
             Disconnect])"
  | formData f buffer r e where "\<not> credentials_missing w" "request_formData w = Inr formData"
    "formData_get formData ''file'' = Some (File_entry f)" "file_arrayBuffer f = Inr buffer"
    "adapter_completion (upload_stream w video_options buffer) = Normal (Some r)"
    "prisma_video_create w (video_data_of formData r) = Inl e"
    "video_POST w t =
       (Normal \<lparr>status = 500, json_body = Error_body ''Upload video failed''\<rparr>,
        t @ [Upload_stream video_options buffer, Video_create (video_data_of formData r),
             Console_log ''Upload video failed'' e, Disconnect])"
  | formData f buffer r video where "\<not> credentials_missing w" "request_formData w = Inr formData"
    "formData_get formData ''file'' = Some (File_entry f)" "file_arrayBuffer f = Inr buffer"
    "adapter_completion (upload_stream w video_options buffer) = Normal (Some r)"
    "prisma_video_create w (video_data_of formData r) = Inr video"
    "video_POST w t =
       (Normal \<lparr>status = 200, json_body = Video_body video\<rparr>,
        t @ [Upload_stream video_options buffer, Video_create (video_data_of formData r),
             Disconnect])"
proof (cases "credentials_missing w")
  case True
  then show ?thesis
    using that(1) by (simp add: video_POST_eq video_try_eq)
next
  case creds: False
  show ?thesis
  proof (cases "request_formData w")
    case (Inl e)
    then show ?thesis
      using creds that(2) by (simp add: video_POST_eq video_try_eq)
  next
    case form: (Inr formData)
    show ?thesis
    proof (cases "formData_get formData ''file''")
      case None
      then show ?thesis
        using creds form that(3) by (simp add: video_POST_eq video_try_eq not_entry_def)
    next
      case (Some v)
      show ?thesis
      proof (cases v)
        case (String_entry s)
        then show ?thesis
          using creds form Some that(3) [of formData] that(4) [of formData s]
          by (cases "s = []") (simp_all add: video_POST_eq video_try_eq not_entry_def)
      next
        case (File_entry f)
        show ?thesis
        proof (cases "file_arrayBuffer f")
          case (Inl e)
          then show ?thesis
            using creds form Some File_entry that(5) by (simp add: video_POST_eq video_try_eq)
        next
          case buf: (Inr buffer)
          show ?thesis
          proof (cases "adapter_completion (upload_stream w video_options buffer)")
            case Never
            then show ?thesis
              using creds form Some File_entry buf that(6)
              by (simp add: video_POST_eq video_try_eq)
          next
            case (Throw e)
            then show ?thesis
              using creds form Some File_entry buf that(7)
              by (simp add: video_POST_eq video_try_eq)
          next
            case (Normal result)
            show ?thesis
            proof (cases result)
              case None
              then show ?thesis
                using creds form Some File_entry buf Normal that(8)
                by (simp add: video_POST_eq video_try_eq)
            next
              case res: (Some r)
              show ?thesis
              proof (cases "prisma_video_create w (video_data_of formData r)")
                case (Inl e)
                then show ?thesis
                  using creds form Some File_entry buf Normal res
                    that(9) [of formData f buffer r e]
                  by (simp add: video_POST_eq video_try_eq)
              next
                case (Inr video)
                then show ?thesis
                  using creds form Some File_entry buf Normal res
                    that(10) [of formData f buffer r video]
                  by (simp add: video_POST_eq video_try_eq)
              qed
            qed
          qed
        qed
      qed
    qed
  qed
qed







subsection \<open>Printing a byte count\<close>

lemma digit_char_simps:
  "digit_char 0 = CHR ''0''" "digit_char 1 = CHR ''1''" "digit_char 2 = CHR ''2''"
  "digit_char 3 = CHR ''3''" "digit_char 4 = CHR ''4''" "digit_char 5 = CHR ''5''"
  "digit_char 6 = CHR ''6''" "digit_char 7 = CHR ''7''" "digit_char 8 = CHR ''8''"
  "digit_char 9 = CHR ''9''" "digit_char (Suc 0) = CHR ''1''"
  by code_simp+




lemma bit_length_le: "bit_length n \<le> k \<longleftrightarrow> n < 2 ^ k"
proof (induction k arbitrary: n)
  case 0
  show ?case by (subst bit_length.simps) simp
next
  case (Suc k)
  have "bit_length n \<le> Suc k \<longleftrightarrow> n = 0 \<or> bit_length (n div 2) \<le> k"
    by (subst bit_length.simps) simp
  also have "\<dots> \<longleftrightarrow> n = 0 \<or> n div 2 < 2 ^ k"
    by (simp add: Suc.IH)
  also have "\<dots> \<longleftrightarrow> n < 2 ^ Suc k"
    by auto
  finally show ?case .
qed

lemma to_double_small: "n < 2 ^ 53 \<Longrightarrow> to_double n = Some n"
  by (simp add: to_double_def bit_length_le)

lemma to_double_large:
  assumes "\<not> n < 2 ^ 53" and "to_double n = Some x"
  shows "2 ^ 53 \<le> x"
proof -
  define b where "b = bit_length n"
  define e where "e = b - 53"
  from assms(1) have b: "53 < b"
    using bit_length_le [of n 53] by (simp add: b_def)
  then have e: "0 < e" "b - 1 = 52 + e"
    by (simp_all add: e_def)
  have "\<not> bit_length n \<le> b - 1"
    using b by (simp add: b_def)
  then have "2 ^ (b - 1) \<le> n"
    by (simp add: bit_length_le)
  moreover have "(2::nat) ^ (b - 1) = 2 ^ 52 * 2 ^ e"
    by (simp only: e(2) power_add)
  ultimately have "2 ^ 52 * 2 ^ e \<le> n"
    by simp
  then have q: "2 ^ 52 \<le> n div 2 ^ e"
    by (simp add: less_eq_div_iff_mult_less_eq)
  from assms(2) b have "x = (n div 2 ^ e + 1) * 2 ^ e \<or> x = n div 2 ^ e * 2 ^ e"
    by (auto simp: to_double_def Let_def b_def [symmetric] e_def [symmetric] split: if_splits)
  then obtain m where m: "x = m * 2 ^ e" "n div 2 ^ e \<le> m"
    by (elim disjE) (rule that, assumption, simp)+
  have "(2::nat) ^ 1 \<le> 2 ^ e"
    using e(1) by (intro power_increasing) simp_all
  moreover have "2 ^ 52 \<le> m"
    using m(2) q by simp
  ultimately have "(2::nat) ^ 52 * 2 ^ 1 \<le> m * 2 ^ e"
    by (rule mult_le_mono [rotated])
  with m(1) show ?thesis by simp
qed

lemma to_double_exact:
  assumes "to_double v = Some x" and "x < 2 ^ 53"
  shows "v = x"
proof (cases "v < 2 ^ 53")
  case True
  with assms(1) show ?thesis by (simp add: to_double_small)
next
  case False
  with assms show ?thesis using to_double_large [of v x] by simp
qed

lemma shortest_sound:
  assumes "to_double x = Some x" and "k \<le> n" and "shortest x n k = (s, k')"
  shows "to_double (s * 10 ^ (n - k')) = Some x \<and> k' \<le> n"
  using assms
proof (induction x n k rule: shortest.induct)
  case (1 x n k)
  show ?case
  proof (cases "n \<le> k")
    case True
    then have "shortest x n k = (x, n)"
      by (subst shortest.simps) simp
    with "1.prems" show ?thesis by simp
  next
    case False
    then have next_k: "Suc k \<le> n" by simp
    define p where "p = (10::nat) ^ (n - k)"
    define cs where
      "cs = filter (\<lambda>s. s < 10 ^ k \<and> to_double (s * p) = Some x) [x div p, x div p + 1]"
    have good: "to_double (c * p) = Some x" if "c \<in> set cs" for c
      using that by (auto simp: cs_def split: if_splits)
    have unfold: "shortest x n k =
        (case cs of
           [] \<Rightarrow> shortest x n (Suc k)
         | [c] \<Rightarrow> (c, k)
         | c # c' # ss \<Rightarrow>
             (if x - c * p < c' * p - x then c
              else if c' * p - x < x - c * p then c'
              else if even c then c else c', k))"
      using False by (subst shortest.simps) (simp add: Let_def p_def cs_def)
    show ?thesis
    proof (cases cs)
      case Nil
      then have "shortest x n (Suc k) = (s, k')"
        using "1.prems"(3) unfold by simp
      moreover have "filter (\<lambda>s. s < 10 ^ k \<and> to_double (s * 10 ^ (n - k)) = Some x)
          [x div 10 ^ (n - k), x div 10 ^ (n - k) + 1] = []"
        using Nil by (simp add: cs_def p_def)
      ultimately show ?thesis
        using "1.IH" [OF False refl refl] "1.prems"(1) next_k by blast
    next
      case (Cons c cs')
      then have "s \<in> set cs \<and> k' = k"
        using "1.prems"(3) unfold by (cases cs') (auto split: if_splits)
      with good [of s] "1.prems"(2) show ?thesis
        by (simp add: p_def)
    qed
  qed
qed

lemma decimal_digits_times_10: "0 < m \<Longrightarrow> decimal_digits (m * 10) = decimal_digits m @ ''0''"
  by (subst decimal_digits.simps) (simp add: digit_char_simps)

lemma decimal_digits_shift:
  "0 < m \<Longrightarrow> decimal_digits (m * 10 ^ j) = decimal_digits m @ replicate j (CHR ''0'')"
proof (induction j)
  case 0
  show ?case by simp
next
  case (Suc j)
  have "decimal_digits (m * 10 ^ Suc j) = decimal_digits ((m * 10 ^ j) * 10)"
    by (simp add: ac_simps)
  also have "\<dots> = decimal_digits (m * 10 ^ j) @ ''0''"
    using Suc.prems by (simp add: decimal_digits_times_10)
  finally show ?case
    using Suc by (simp add: replicate_append_same)
qed

lemma less_power_length: "n < 10 ^ length (decimal_digits n)"
proof (induction n rule: decimal_digits.induct)
  case (1 n)
  show ?case
  proof (cases "n < 10")
    case True
    then show ?thesis by (subst decimal_digits.simps) simp
  next
    case False
    with 1 have "n div 10 < 10 ^ length (decimal_digits (n div 10))" by simp
    then have "n < 10 * 10 ^ length (decimal_digits (n div 10))"
      by (simp add: div_less_iff_less_mult mult.commute)
    with False show ?thesis by (subst decimal_digits.simps) simp
  qed
qed

lemma length_decimal_digits_le: "n < 10 ^ j \<Longrightarrow> 0 < j \<Longrightarrow> length (decimal_digits n) \<le> j"
proof (induction n arbitrary: j rule: decimal_digits.induct)
  case (1 n)
  show ?case
  proof (cases "n < 10")
    case True
    with "1.prems" show ?thesis by (subst decimal_digits.simps) simp
  next
    case False
    with "1.prems" have "1 < j"
      by (cases "j = 1") auto
    then obtain i where j: "j = Suc i" "0 < i" by (cases j) auto
    with "1.prems" have "n div 10 < 10 ^ i"
      by (simp add: div_less_iff_less_mult mult.commute)
    with False j "1.IH" [of i] show ?thesis
      by (subst decimal_digits.simps) simp
  qed
qed

lemma String_number_safe_integer:
  assumes "n < 2 ^ 53"
  shows "String_number n = decimal_digits n"
proof (cases "n = 0")
  case True
  then show ?thesis
    by (simp add: String_number_def to_double_small Number_toString_def decimal_digits.simps
          digit_char_simps)
next
  case False
  define d where "d = length (decimal_digits n)"
  have self: "to_double n = Some n"
    using assms by (rule to_double_small)
  have "n < 10 ^ 21"
    using assms by simp
  then have d_le: "d \<le> 21"
    unfolding d_def by (rule length_decimal_digits_le) simp
  have d_pos: "1 \<le> d"
    unfolding d_def by (subst decimal_digits.simps) simp
  have not_above: "to_double (10 ^ d) \<noteq> Some n"
  proof
    assume "to_double (10 ^ d) = Some n"
    then have "10 ^ d = n" using assms by (rule to_double_exact)
    then show False using less_power_length [of n] by (simp add: d_def)
  qed
  obtain s k where sk: "shortest n d 1 = (s, k)"
    by (cases "shortest n d 1")
  from shortest_sound [OF self d_pos sk]
  have "to_double (s * 10 ^ (d - k)) = Some n" by simp
  then have n: "s * 10 ^ (d - k) = n" using assms by (rule to_double_exact)
  with False have "0 < s" by (cases "s = 0") auto
  then have "decimal_digits s @ replicate (d - k) (CHR ''0'') = decimal_digits n"
    using decimal_digits_shift [of s "d - k"] n by simp
  then show ?thesis
    using False self not_above sk d_le
    by (simp add: String_number_def Number_toString_def d_def [symmetric] format_number_def)
qed

lemma bit_length_0 [simp]: "bit_length 0 = 0"
  by (subst bit_length.simps) simp

lemma bit_length_1 [simp]: "bit_length (Suc 0) = 1" "bit_length 1 = 1"
  by (subst bit_length.simps, simp)+

lemma bit_length_numeral [simp]:
  "bit_length (numeral (Num.Bit0 n)) = 1 + bit_length (numeral n)"
  "bit_length (numeral (Num.Bit1 n)) = 1 + bit_length (numeral n)"
  "bit_length (numeral Num.One) = 1"
  by (subst bit_length.simps, simp add: numeral_Bit0_div_2 numeral_Bit1_div_2)+

text \<open>Evaluating \<open>to_double\<close> on numerals.\<close>

lemma to_double_finite:
  assumes "53 < bit_length v" and "bit_length v \<le> 1023"
  shows "to_double v =
     (let e = bit_length v - 53; q = v div 2 ^ e; r = v mod 2 ^ e; h = 2 ^ (e - 1)
      in Some ((if h < r \<or> (r = h \<and> odd q) then q + 1 else q) * 2 ^ e))"
proof -
  define b where "b = bit_length v"
  define e where "e = b - 53"
  define q where "q = v div 2 ^ e"
  from assms have b: "53 < b" "b \<le> 1023" by (simp_all add: b_def)
  then have be: "b = 53 + e" by (simp add: e_def)
  have "v < 2 ^ b"
    using bit_length_le [of v b] by (simp add: b_def)
  then have "v < 2 ^ 53 * 2 ^ e"
    by (simp only: be power_add)
  then have q: "q < 2 ^ 53"
    by (simp add: q_def div_less_iff_less_mult mult.commute)
  have bound: "m * 2 ^ e < 2 ^ 1024" if "m \<le> q + 1" for m
  proof -
    from that q have "m \<le> 2 ^ 53" by simp
    then have "m * 2 ^ e \<le> 2 ^ 53 * 2 ^ e" by (rule mult_le_mono1)
    also have "\<dots> = 2 ^ b" by (simp only: be power_add)
    also have "\<dots> < 2 ^ 1024"
      using b(2) by (intro power_strict_increasing) simp_all
    finally show ?thesis .
  qed
  have "\<not> 2 ^ 1024 \<le> (q + 1) * 2 ^ e" "\<not> 2 ^ 1024 \<le> q * 2 ^ e"
    using bound [of "q + 1"] bound [of q] by (simp_all add: not_le)
  then show ?thesis
    using b(1)
    by (simp only: to_double_def Let_def b_def [symmetric] e_def [symmetric] q_def [symmetric])
       (simp add: not_le)
qed


lemma to_double_eval:
  assumes "bit_length v \<le> 1023"
  shows "to_double v =
     (if bit_length v \<le> 53 then Some v
      else
        let e = bit_length v - 53; q = v div 2 ^ e; r = v mod 2 ^ e; h = 2 ^ (e - 1)
        in Some ((if h < r \<or> (r = h \<and> odd q) then q + 1 else q) * 2 ^ e))"
proof (cases "bit_length v \<le> 53")
  case True
  then show ?thesis by (simp add: to_double_def)
next
  case False
  with assms show ?thesis by (simp add: to_double_finite)
qed

text \<open>
  Three values of \<open>String\<close>: at the first count that a double cannot hold
  (\<open>2^53 + 1\<close>), at \<open>2^63\<close>, and at the first number printed with an exponent.
\<close>

lemmas String_number_eval = String_number_def to_double_eval Number_toString_def
  format_number_def Let_def shortest.simps decimal_digits.simps digit_char_simps

lemma String_number_2_53_1: "String_number 9007199254740993 = ''9007199254740992''"
  by (simp add: String_number_eval)


lemma String_number_10_21: "String_number 1000000000000000000000 = ''1e+21''"
  by (simp add: String_number_eval)

subsection \<open>The concrete requests, evaluated\<close>

lemma decimal_digits_2048: "decimal_digits 2048 = ''2048''"
  by (simp add: decimal_digits.simps digit_char_simps)

lemma String_number_2048: "String_number 2048 = ''2048''"
  by (simp add: String_number_safe_integer decimal_digits_2048)

lemmas world_defs = world_ok_def world_anonymous_def world_no_file_def world_no_key_def
  world_no_key_no_file_def world_text_file_def world_bad_body_def world_unreadable_def
  world_upload_fails_def world_store_fails_def world_no_duration_def world_silent_def
  world_huge_def clip_form_def clip_def clip_result_def store_accepts_def

lemmas eval_defs = image_POST_eq image_try_eq video_POST_eq video_try_eq credentials_missing_def
  not_string_def not_entry_def formData_get_def adapter_completion_def video_data_of_def
  or_number_def String_number_2048

lemma video_world_ok:
  "video_POST world_ok [] =
     (Normal \<lparr>status = 200,
        json_body = Video_body
          \<lparr>title = Some (String_entry ''t''), description = Some (String_entry ''d''),
           publicId = ''video-uploads/abc'', originalSize = Some (String_entry ''2097152''),
           compressedSize = ''2048'', video_duration = 12, video_id = ''v1''\<rparr>\<rparr>,
      [Upload_stream video_options [1, 2, 3],
       Video_create
          \<lparr>title = Some (String_entry ''t''), description = Some (String_entry ''d''),
           publicId = ''video-uploads/abc'', originalSize = Some (String_entry ''2097152''),
           compressedSize = ''2048'', video_duration = 12\<rparr>,
       Disconnect])"
  by (simp add: eval_defs world_defs)











lemma image_world_no_key:
  "image_POST world_no_key [] =
     (Normal \<lparr>status = 200, json_body = PublicId_body ''video-uploads/abc''\<rparr>,
      [Upload_stream image_options [1, 2, 3]])"
  by (simp add: eval_defs world_defs)

lemma image_world_no_file:
  "image_POST world_no_file [] =
     (Normal \<lparr>status = 400, json_body = Error_body ''File not found''\<rparr>, [])"
  by (simp add: eval_defs world_defs)


lemma image_world_text_file:
  "image_POST world_text_file [] =
     (Normal image_failed,
      [Console_log ''Upload image failed'' (TypeError ''file.arrayBuffer is not a function'')])"
  by (simp add: eval_defs world_defs image_failed_def)

lemma video_world_text_file:
  "video_POST world_text_file [] =
     (Normal video_failed,
      [Console_log ''Upload video failed'' (TypeError ''file.arrayBuffer is not a function''),
       Disconnect])"
  by (simp add: eval_defs world_defs video_failed_def)

lemma image_world_bad_body:
  "image_POST world_bad_body [] =
     (Normal image_failed, [Console_log ''Upload image failed'' (Error ''Failed to parse body'')])"
  by (simp add: eval_defs world_defs image_failed_def)

lemma video_world_bad_body:
  "video_POST world_bad_body [] =
     (Normal video_failed,
      [Console_log ''Upload video failed'' (Error ''Failed to parse body''), Disconnect])"
  by (simp add: eval_defs world_defs video_failed_def)

lemma image_world_unreadable:
  "image_POST world_unreadable [] =
     (Normal image_failed, [Console_log ''Upload image failed'' (Error ''read'')])"
  by (simp add: eval_defs world_defs image_failed_def)

lemma video_world_unreadable:
  "video_POST world_unreadable [] =
     (Normal video_failed, [Console_log ''Upload video failed'' (Error ''read''), Disconnect])"
  by (simp add: eval_defs world_defs video_failed_def)

subsection \<open>The video path: upload, then persist\<close>







subsection \<open>The video path: the store client is released\<close>



subsection \<open>The gates of the two handlers\<close>

text \<open>
  C5. When \<open>auth()\<close> gives no \<open>userId\<close>, the image handler returns 401 with the body
  \<open>{error: "Unauthorized"}\<close> and the trace is left as it was: no upload call, no
  store call, no log line.
\<close>

theorem image_unauthorized:
  assumes "auth_userId w = None"
  shows "image_POST w t = (Normal \<lparr>status = 401, json_body = Error_body ''Unauthorized''\<rparr>, t)"
  using assms by (simp add: image_POST_eq not_string_def)

theorem image_unauthorized_witness:
  "auth_userId world_anonymous = None
   \<and> image_POST world_anonymous [] =
       (Normal \<lparr>status = 401, json_body = Error_body ''Unauthorized''\<rparr>, [])"
  using image_unauthorized [of world_anonymous "[]"]
  by (simp add: world_anonymous_def)






text \<open>
  C8. The \<open>file\<close> field is present and is the text \<open>hello\<close>, the caller is signed in
  and the three credentials are set. The value passes the \<open>!file\<close> test of lines 37 and
  126, \<open>file.arrayBuffer\<close> is not a function, and both handlers answer 500 from the
  \<open>catch\<close> block where the claim asks for 400. No upload call is made.
\<close>

theorem text_file_is_answered_500:
  "request_formData world_text_file = Inr [(''file'', String_entry ''hello'')]
   \<and> formData_get [(''file'', String_entry ''hello'')] ''file'' = Some (String_entry ''hello'')
   \<and> auth_userId world_text_file = Some ''user_1''
   \<and> image_POST world_text_file [] =
       (Normal \<lparr>status = 500, json_body = Error_body ''Upload image failed''\<rparr>,
        [Console_log ''Upload image failed'' (TypeError ''file.arrayBuffer is not a function'')])
   \<and> video_POST world_text_file [] =
       (Normal \<lparr>status = 500, json_body = Error_body ''Upload video failed''\<rparr>,
        [Console_log ''Upload video failed'' (TypeError ''file.arrayBuffer is not a function''),
         Disconnect])
   \<and> status_of (image_POST world_text_file []) \<noteq> Some 400
   \<and> status_of (video_POST world_text_file []) \<noteq> Some 400"
proof -
  have "request_formData world_text_file = Inr [(''file'', String_entry ''hello'')]"
    "auth_userId world_text_file = Some ''user_1''"
    by (simp_all add: world_text_file_def world_ok_def)
  then show ?thesis
    by (simp add: image_world_text_file video_world_text_file formData_get_def
          image_failed_def video_failed_def status_of_def)
qed

subsection \<open>The video path does not ask who is calling\<close>

text \<open>
  C9. The video handler never calls \<open>auth()\<close>: replacing the identity of a request by
  any other, present or absent, leaves its response and its calls the same, and no
  response of the handler has status 401.
\<close>

theorem video_ignores_identity:
  "video_POST (w\<lparr>auth_userId := u\<rparr>) t = video_POST w t
   \<and> status_of (video_POST w t) \<noteq> Some 401"
proof -
  have "video_POST (w\<lparr>auth_userId := u\<rparr>) t = video_POST w t"
    by (simp add: video_POST_def video_handler_def video_try_def upload_adapter_def Let_def
          cong: if_cong)
  moreover have "status_of (video_POST w t) \<noteq> Some 401"
    by (cases rule: video_POST_cases [of w t]) (simp_all add: status_of_def)
  ultimately show ?thesis by simp
qed

theorem video_ignores_identity_witness:
  "video_POST (world_ok\<lparr>auth_userId := None\<rparr>) [] = video_POST world_ok []
   \<and> status_of (video_POST (world_ok\<lparr>auth_userId := None\<rparr>) []) = Some 200"
  using video_ignores_identity [where w = world_ok and u = None and t = "[]"]
  by (simp add: video_world_ok status_of_def)

subsection \<open>What the \<open>catch\<close> blocks answer, and what escapes them\<close>








end
